theory Spec2Isabelle
  imports Complex_Main
begin

section \<open>Numeric model\<close>

text \<open>
  The viewer (\<^verbatim>\<open>mmgbsa_ui_v2.py\<close>) works on pandas Series of binary64 floats. The
  embedding idealises a float as an exact real number or the missing value NaN:
  \<open>Some x\<close> is the number \<open>x\<close>, \<open>None\<close> is NaN. Rounding, overflow and the
  infinities are not modelled, so every equation below is one of exact arithmetic.
  A Series is the list of its cells in row order; \<open>Num xs\<close> is the Series of the
  numbers \<open>xs\<close> (no cell missing).
\<close>

type_synonym pyfloat = "real option"

type_synonym series = "pyfloat list"

abbreviation Num :: "real list \<Rightarrow> series" where
  "Num xs \<equiv> map Some xs"




text \<open>pandas reductions skip NaN (\<^verbatim>\<open>skipna=True\<close>): they see the valid cells only.\<close>

primrec dropna :: "series \<Rightarrow> real list" where
  "dropna [] = []"
| "dropna (c # cs) = (case c of None \<Rightarrow> dropna cs | Some v \<Rightarrow> v # dropna cs)"

definition avg :: "real list \<Rightarrow> real" where
  "avg vs = sum_list vs / real (length vs)"

text \<open>
  The variance with \<^verbatim>\<open>ddof=1\<close> (pandas' and \<^verbatim>\<open>scipy.stats.sem\<close>'s default):
  squared deviations from the mean, summed and divided by \<open>n - 1\<close>.
\<close>

definition sample_var :: "real list \<Rightarrow> real" where
  "sample_var vs = sum_list (map (\<lambda>v. (v - avg vs)\<^sup>2) vs) / (real (length vs) - 1)"

definition sample_std :: "real list \<Rightarrow> real" where
  "sample_std vs = sqrt (sample_var vs)"

primrec least :: "real \<Rightarrow> real list \<Rightarrow> real" where
  "least m [] = m"
| "least m (v # vs) = least (min m v) vs"

primrec greatest :: "real \<Rightarrow> real list \<Rightarrow> real" where
  "greatest m [] = m"
| "greatest m (v # vs) = greatest (max m v) vs"

text \<open>\<^verbatim>\<open>Series.count()\<close>: the number of cells that are not NaN.\<close>

definition series_count :: "series \<Rightarrow> nat" where
  "series_count s = length (dropna s)"

text \<open>\<^verbatim>\<open>Series.mean()\<close>: NaN when no cell is valid.\<close>

definition series_mean :: "series \<Rightarrow> pyfloat" where
  "series_mean s = (let vs = dropna s in if vs = [] then None else Some (avg vs))"

text \<open>\<^verbatim>\<open>Series.std()\<close>: NaN when fewer than two cells are valid (\<open>n - ddof \<le> 0\<close>).\<close>

definition series_std :: "series \<Rightarrow> pyfloat" where
  "series_std s = (let vs = dropna s in if length vs < 2 then None else Some (sample_std vs))"

definition series_min :: "series \<Rightarrow> pyfloat" where
  "series_min s = (case dropna s of [] \<Rightarrow> None | v # vs \<Rightarrow> Some (least v vs))"

definition series_max :: "series \<Rightarrow> pyfloat" where
  "series_max s = (case dropna s of [] \<Rightarrow> None | v # vs \<Rightarrow> Some (greatest v vs))"

section \<open>Summary statistics\<close>

text \<open>
  \<^verbatim>\<open>compute_stats\<close> returns a dictionary with five fixed keys; \<^verbatim>\<open>astype(float)\<close>
  is the identity on a Series that is already one of floats.
\<close>

record stats =
  frames :: int
  mean :: pyfloat
  stdev :: pyfloat
  minimum :: pyfloat
  maximum :: pyfloat

definition compute_stats :: "series \<Rightarrow> stats" where
  "compute_stats s =
     \<lparr> frames = int (series_count s),
       mean = series_mean s,
       stdev = series_std s,
       minimum = series_min s,
       maximum = series_max s \<rparr>"

section \<open>Time axis\<close>

text \<open>
  Lines 477-478: \<^verbatim>\<open>dt = md_length_ns / max(len(dg) - 1, 1)\<close> and
  \<^verbatim>\<open>time_ns = [i * dt for i in range(len(dg))]\<close>.
\<close>

definition time_step :: "real \<Rightarrow> series \<Rightarrow> real" where
  "time_step md_length_ns dg = md_length_ns / real_of_int (max (int (length dg) - 1) 1)"

definition time_ns :: "real \<Rightarrow> series \<Rightarrow> real list" where
  "time_ns md_length_ns dg = map (\<lambda>i. real i * time_step md_length_ns dg) [0..<length dg]"

section \<open>Rolling windows\<close>

text \<open>
  Line 502: \<^verbatim>\<open>dg.iloc[max(0, i-window_size+1):i+1]\<close>, the rows of the trailing window
  that ends at row \<open>i\<close>. A pandas \<^verbatim>\<open>rolling(window=w)\<close> window at row \<open>i\<close> covers the
  same rows.
\<close>

definition window_data :: "series \<Rightarrow> nat \<Rightarrow> nat \<Rightarrow> series" where
  "window_data dg w i = drop (nat (max 0 (int i - int w + 1))) (take (i + 1) dg)"

text \<open>
  \<^verbatim>\<open>Series.rolling(window=w, min_periods=m)\<close> followed by a reduction: at each row the
  reduction sees the valid cells of the window, and the result is NaN when fewer than
  \<open>m\<close> of them are valid.
\<close>

definition rolling :: "(real list \<Rightarrow> pyfloat) \<Rightarrow> series \<Rightarrow> nat \<Rightarrow> nat \<Rightarrow> series" where
  "rolling f dg w min_periods =
     map (\<lambda>i. let vs = dropna (window_data dg w i)
              in if length vs < min_periods then None else f vs) [0..<length dg]"

definition rolling_mean :: "series \<Rightarrow> nat \<Rightarrow> nat \<Rightarrow> series" where
  "rolling_mean = rolling (\<lambda>vs. if vs = [] then None else Some (avg vs))"

definition rolling_std :: "series \<Rightarrow> nat \<Rightarrow> nat \<Rightarrow> series" where
  "rolling_std = rolling (\<lambda>vs. if length vs < 2 then None else Some (sample_std vs))"

text \<open>
  \<^verbatim>\<open>rolling(...).count()\<close> honours \<^verbatim>\<open>min_periods\<close> in current pandas; older releases
  ignored it. The quotient of line 489 is the same either way: where the count is
  below 2 the standard deviation is NaN already.
\<close>

definition rolling_count :: "series \<Rightarrow> nat \<Rightarrow> nat \<Rightarrow> series" where
  "rolling_count = rolling (\<lambda>vs. Some (real (length vs)))"

text \<open>
  Cell-wise operations on Series. NaN propagates through \<^verbatim>\<open>np.sqrt\<close> and through
  division; a division by zero (an infinity or NaN in numpy) is NaN here, and never
  happens in \<open>yerr\<close> below, where a valid divisor is the root of a count of at least 2.
\<close>

definition np_sqrt :: "series \<Rightarrow> series" where
  "np_sqrt s = map (\<lambda>c. case c of None \<Rightarrow> None
                          | Some v \<Rightarrow> if v < 0 then None else Some (sqrt v)) s"

definition float_div :: "pyfloat \<Rightarrow> pyfloat \<Rightarrow> pyfloat" where
  "float_div a b =
     (case a of None \<Rightarrow> None
      | Some x \<Rightarrow> (case b of None \<Rightarrow> None
                   | Some y \<Rightarrow> if y = 0 then None else Some (x / y)))"

definition series_div :: "series \<Rightarrow> series \<Rightarrow> series" where
  "series_div a b = map2 float_div a b"

definition fillna :: "real \<Rightarrow> series \<Rightarrow> series" where
  "fillna v s = map (\<lambda>c. case c of None \<Rightarrow> Some v | Some x \<Rightarrow> Some x) s"

section \<open>Confidence interval\<close>

text \<open>
  \<^verbatim>\<open>scipy.stats.sem\<close> (\<^verbatim>\<open>ddof=1\<close>, \<^verbatim>\<open>nan_policy='propagate'\<close>): the sample standard
  deviation over the root of the number of cells; NaN when a cell is NaN or when there
  are fewer than two cells.
\<close>

definition sem :: "series \<Rightarrow> pyfloat" where
  "sem data =
     (if None \<in> set data \<or> length data < 2 then None
      else Some (sample_std (dropna data) / sqrt (real (length data))))"

text \<open>
  The quantile function of the standard Student t distribution (\<^verbatim>\<open>t._ppf(q, df)\<close>) is
  a parameter \<open>ppf\<close> of the model. \<^verbatim>\<open>t.ppf(q, df, loc, scale)\<close> checks its arguments
  first and answers NaN unless \<open>df > 0\<close>, \<open>scale > 0\<close> and \<open>loc\<close> is a number; for
  \<open>0 < q < 1\<close> it is \<open>ppf q df * scale + loc\<close>. \<^verbatim>\<open>t.interval(confidence, ...)\<close> is the
  pair of \<^verbatim>\<open>t.ppf\<close> at \<open>(1 - confidence) / 2\<close> and at \<open>(1 + confidence) / 2\<close>.
\<close>

type_synonym quantile = "real \<Rightarrow> int \<Rightarrow> real"

text \<open>
  An instance of the parameter for the closed examples: the two-sided 95% points of
  the printed t tables for one to four degrees of freedom (2 beyond them). It stands
  for the quantile function at \<open>q = 0.025\<close> and \<open>q = 0.975\<close> only, the two points the
  program asks for.
\<close>

definition t_table :: quantile where
  "t_table q df =
     (let c = (if df = 1 then 12706 / 1000 else if df = 2 then 4303 / 1000
               else if df = 3 then 3182 / 1000 else if df = 4 then 2776 / 1000 else 2)
      in if q < 1 / 2 then - c else if q = 1 / 2 then 0 else c)"

definition t_ppf :: "quantile \<Rightarrow> real \<Rightarrow> int \<Rightarrow> pyfloat \<Rightarrow> pyfloat \<Rightarrow> pyfloat" where
  "t_ppf ppf q df loc scale =
     (case loc of None \<Rightarrow> None
      | Some l \<Rightarrow> (case scale of None \<Rightarrow> None
                   | Some s \<Rightarrow> if 0 < df \<and> 0 < s \<and> 0 < q \<and> q < 1
                              then Some (ppf q df * s + l) else None))"

definition t_interval :: "quantile \<Rightarrow> real \<Rightarrow> int \<Rightarrow> pyfloat \<Rightarrow> pyfloat \<Rightarrow> pyfloat \<times> pyfloat" where
  "t_interval ppf confidence df loc scale =
     (t_ppf ppf ((1 - confidence) / 2) df loc scale,
      t_ppf ppf ((1 + confidence) / 2) df loc scale)"

text \<open>
  Lines 94-99, with the default \<^verbatim>\<open>confidence=0.95\<close> of the only call. \<^verbatim>\<open>np.mean\<close> of a
  Series is \<^verbatim>\<open>Series.mean()\<close>.
\<close>

definition calculate_confidence_interval :: "quantile \<Rightarrow> series \<Rightarrow> pyfloat \<times> pyfloat \<times> pyfloat" where
  "calculate_confidence_interval ppf data =
     (let m = series_mean data;
          std_err = sem data;
          ci = t_interval ppf (95 / 100) (int (length data) - 1) m std_err
      in (m, fst ci, snd ci))"

text \<open>
  Lines 497-509, the body of the loop at row \<open>i\<close>: the pair appended to
  \<^verbatim>\<open>ci_lower\<close> and \<^verbatim>\<open>ci_upper\<close>. The loop runs over \<^verbatim>\<open>range(len(dg))\<close>, so
  \<^verbatim>\<open>dg.iloc[i]\<close> is always in range.
\<close>

definition ci_at :: "quantile \<Rightarrow> series \<Rightarrow> nat \<Rightarrow> nat \<Rightarrow> pyfloat \<times> pyfloat" where
  "ci_at ppf dg w i =
     (if i < 2 then (dg ! i, dg ! i)
      else let wd = window_data dg w i
           in if length wd \<ge> 2
              then (case calculate_confidence_interval ppf wd of (_, lower, upper) \<Rightarrow> (lower, upper))
              else (dg ! i, dg ! i))"

section \<open>Settings and the per-series analysis\<close>

text \<open>
  The fields of \<^verbatim>\<open>st.session_state.settings\<close> that the computation reads, and some of
  those that only style the chart.
\<close>

record settings =
  window_size :: nat
  show_frames :: bool
  show_running_mean :: bool
  show_error_bars :: bool
  error_type :: string
  comparison_mode :: bool
  max_ligands :: nat
  frame_color :: string
  running_mean_color :: string
  x_label :: string
  legend_position :: string

text \<open>Lines 34-55, \<^verbatim>\<open>DEFAULT_SETTINGS\<close>, for the fields above.\<close>

definition DEFAULT_SETTINGS :: settings where
  "DEFAULT_SETTINGS =
     \<lparr> window_size = 10, show_frames = True, show_running_mean = True,
       show_error_bars = False, error_type = ''Standard Error'',
       comparison_mode = False, max_ligands = 4,
       frame_color = ''#FFA500'', running_mean_color = ''#8B0000'',
       x_label = ''Time (ns)'', legend_position = ''best'' \<rparr>"

text \<open>Line 480.\<close>

definition running :: "settings \<Rightarrow> series \<Rightarrow> series" where
  "running st dg = rolling_mean dg (window_size st) 1"

text \<open>Lines 482-509: \<^verbatim>\<open>yerr\<close>, \<^verbatim>\<open>ci_lower\<close> and \<^verbatim>\<open>ci_upper\<close>, each \<^verbatim>\<open>None\<close> unless set.\<close>

record bands =
  yerr :: "series option"
  ci_lower :: "series option"
  ci_upper :: "series option"

definition error_bands :: "quantile \<Rightarrow> settings \<Rightarrow> series \<Rightarrow> bands" where
  "error_bands ppf st dg =
     (if show_error_bars st then
        (if error_type st = ''Standard Error'' then
           (let running_std = rolling_std dg (window_size st) 2;
                running_count = rolling_count dg (window_size st) 2;
                running_std = series_div running_std (np_sqrt running_count)
            in \<lparr> yerr = Some (fillna 0 running_std), ci_lower = None, ci_upper = None \<rparr>)
         else if error_type st = ''Standard Deviation'' then
           (let running_std = rolling_std dg (window_size st) 2
            in \<lparr> yerr = Some (fillna 0 running_std), ci_lower = None, ci_upper = None \<rparr>)
         else
           \<lparr> yerr = None,
             ci_lower = Some (map (\<lambda>i. fst (ci_at ppf dg (window_size st) i)) [0..<length dg]),
             ci_upper = Some (map (\<lambda>i. snd (ci_at ppf dg (window_size st) i)) [0..<length dg]) \<rparr>)
      else \<lparr> yerr = None, ci_lower = None, ci_upper = None \<rparr>)"

section \<open>Uploaded files\<close>

text \<open>
  \<^verbatim>\<open>pd.read_csv\<close> is the library's: an upload is given with what \<^verbatim>\<open>read_csv\<close> makes of
  it, \<open>None\<close> when it raises (an empty or unparseable file). A DataFrame is the list of
  its columns in order, each a name with its cells; a cell is a float or a text. A
  column with a text cell has the object dtype, and \<^verbatim>\<open>astype(float)\<close> raises
  \<^verbatim>\<open>ValueError\<close> on it (\<^verbatim>\<open>read_csv\<close> makes a float column of cells that all parse as
  numbers).
\<close>

datatype cell = Str string | Flt pyfloat

type_synonym dataframe = "(string \<times> cell list) list"

record upload =
  file_name :: string
  read_csv :: "dataframe option"

datatype exn = ValueError

primrec astype_float :: "cell list \<Rightarrow> exn + series" where
  "astype_float [] = Inr []"
| "astype_float (c # cs) =
     (case c of Str s \<Rightarrow> Inl ValueError
      | Flt v \<Rightarrow> (case astype_float cs of Inl x \<Rightarrow> Inl x | Inr vs \<Rightarrow> Inr (v # vs)))"

text \<open>\<^verbatim>\<open>df.empty\<close>: no column, or no row.\<close>

definition df_empty :: "dataframe \<Rightarrow> bool" where
  "df_empty d = (case d of [] \<Rightarrow> True | (n, cells) # _ \<Rightarrow> cells = [])"

definition energy_column :: string where
  "energy_column = ''r_psp_MMGBSA_dG_Bind''"

text \<open>
  A ligand id is the value \<^verbatim>\<open>parse_ligand_id\<close> returns, or the generated string
  \<^verbatim>\<open>Ligand_<n>\<close> of the \<^verbatim>\<open>except\<close> branch (\<open>Ligand_n n\<close>).
\<close>

datatype label = Label cell | Ligand_n nat

definition truthy :: "cell \<Rightarrow> bool" where
  "truthy c = (case c of Str s \<Rightarrow> s \<noteq> [] | Flt None \<Rightarrow> True | Flt (Some x) \<Rightarrow> x \<noteq> 0)"

definition parse_ligand_id :: "cell \<Rightarrow> cell" where
  "parse_ligand_id title = (if truthy title then title else Str ''Ligand'')"

text \<open>
  \<^verbatim>\<open>df.get("title", pd.Series(["Ligand"])).iloc[0]\<close>: \<open>None\<close> is the \<^verbatim>\<open>IndexError\<close> of a
  title column without rows.
\<close>

definition first_title :: "dataframe \<Rightarrow> cell option" where
  "first_title d =
     (case map_of d ''title'' of None \<Rightarrow> Some (Str ''Ligand'')
      | Some cells \<Rightarrow> (case cells of [] \<Rightarrow> None | c # _ \<Rightarrow> Some c))"

record entry =
  df :: "dataframe option"
  ligand_id :: label
  csv_file :: string

text \<open>
  Lines 230-237 (and 243-257 for the single uploader): the \<^verbatim>\<open>try\<close> block, whose
  \<^verbatim>\<open>except Exception\<close> stores \<^verbatim>\<open>df = None\<close>. The update of the plot title in the single
  mode styles the chart only and is left out.
\<close>

definition read_entry :: "nat \<Rightarrow> upload \<Rightarrow> entry" where
  "read_entry idx f =
     (case read_csv f of
        None \<Rightarrow> \<lparr> df = None, ligand_id = Ligand_n (idx + 1), csv_file = file_name f \<rparr>
      | Some d \<Rightarrow>
         (case first_title d of
            None \<Rightarrow> \<lparr> df = None, ligand_id = Ligand_n (idx + 1), csv_file = file_name f \<rparr>
          | Some title \<Rightarrow>
              \<lparr> df = Some d, ligand_id = Label (parse_ligand_id title), csv_file = file_name f \<rparr>))"

definition read_entries :: "upload list \<Rightarrow> entry list" where
  "read_entries uploaded_files = map2 read_entry [0..<length uploaded_files] uploaded_files"

datatype message =
    Warning_max_ligands nat
  | Error_empty_file string
  | Error_missing_column string
  | Error_no_valid_data
  | Info_upload_prompt


text \<open>Lines 239-257: the single uploader holds one file or none.\<close>

definition upload_single :: "upload option \<Rightarrow> entry list" where
  "upload_single csv = (case csv of None \<Rightarrow> [] | Some f \<Rightarrow> [read_entry 0 f])"

section \<open>The processing loop\<close>

text \<open>
  What \<^verbatim>\<open>plot_ligand_data\<close> receives for one series (colours and line styles left out),
  and the state of the loop of lines 450-519: the messages shown so far, the series
  plotted and \<^verbatim>\<open>all_stats\<close>.
\<close>

record plotted =
  plot_ligand :: label
  plot_time_ns :: "real list"
  plot_dg :: series
  plot_running :: series
  plot_bands :: bands

record loop_state =
  messages :: "message list"
  plots :: "plotted list"
  all_stats :: "(label \<times> stats) list"

definition say :: "message \<Rightarrow> loop_state \<Rightarrow> loop_state" where
  "say m s = s\<lparr> messages := messages s @ [m] \<rparr>"

text \<open>One iteration; \<open>Inl\<close> is an exception that leaves the loop and the script run.\<close>

definition process_entry :: "quantile \<Rightarrow> settings \<Rightarrow> real \<Rightarrow> loop_state \<Rightarrow> entry \<Rightarrow> exn + loop_state" where
  "process_entry ppf st md_length_ns s e =
     (case df e of
        None \<Rightarrow> Inr (say (Error_empty_file (csv_file e)) s)
      | Some d \<Rightarrow>
          if df_empty d then Inr (say (Error_empty_file (csv_file e)) s)
          else (case map_of d energy_column of
                  None \<Rightarrow> Inr (say (Error_missing_column (csv_file e)) s)
                | Some cells \<Rightarrow>
                    (case astype_float cells of
                       Inl x \<Rightarrow> Inl x
                     | Inr dg \<Rightarrow>
                         Inr (s\<lparr> plots := plots s @
                                    [\<lparr> plot_ligand = ligand_id e,
                                       plot_time_ns = time_ns md_length_ns dg,
                                       plot_dg = dg,
                                       plot_running = running st dg,
                                       plot_bands = error_bands ppf st dg \<rparr>],
                                 all_stats := all_stats s @ [(ligand_id e, compute_stats dg)] \<rparr>))))"

fun process_entries :: "quantile \<Rightarrow> settings \<Rightarrow> real \<Rightarrow> loop_state \<Rightarrow> entry list \<Rightarrow> exn + loop_state" where
  "process_entries ppf st md_length_ns s [] = Inr s"
| "process_entries ppf st md_length_ns s (e # es) =
     (case process_entry ppf st md_length_ns s e of
        Inl x \<Rightarrow> Inl x
      | Inr s' \<Rightarrow> process_entries ppf st md_length_ns s' es)"

text \<open>
  Lines 442-523 and 622-623. \<open>Halted\<close> is \<^verbatim>\<open>st.stop()\<close> after "No valid data to plot";
  \<open>Rendered\<close> carries what the chart and the statistics table are made from; \<open>Crashed\<close>
  is an uncaught exception; \<open>Idle\<close> is the \<^verbatim>\<open>else\<close> branch, which only prompts.
\<close>

datatype outcome =
    Idle
  | Halted
  | Rendered "plotted list" "(label \<times> stats) list"
  | Crashed exn

definition process_files :: "quantile \<Rightarrow> settings \<Rightarrow> real \<Rightarrow> entry list \<Rightarrow> message list \<times> outcome" where
  "process_files ppf st md_length_ns file_data =
     (if file_data \<noteq> [] \<and> md_length_ns > 0 then
        (case process_entries ppf st md_length_ns \<lparr> messages = [], plots = [], all_stats = [] \<rparr> file_data of
           Inl x \<Rightarrow> ([], Crashed x)
         | Inr s \<Rightarrow>
             if all_stats s = [] then (messages s @ [Error_no_valid_data], Halted)
             else (messages s, Rendered (plots s) (all_stats s)))
      else ([Info_upload_prompt], Idle))"


definition run_single :: "quantile \<Rightarrow> settings \<Rightarrow> real \<Rightarrow> upload option \<Rightarrow> message list \<times> outcome" where
  "run_single ppf st md_length_ns csv = process_files ppf st md_length_ns (upload_single csv)"

section \<open>Reference notions of the specification\<close>





text \<open>
  The error the loop reports for an upload whose table \<open>d\<close> has no energy column: the
  one of line 454 when the table is empty (or reading its title failed), the one of
  line 457 otherwise.
\<close>

definition column_error :: "upload \<Rightarrow> dataframe \<Rightarrow> message" where
  "column_error f d =
     (if first_title d = None \<or> df_empty d then Error_empty_file (file_name f)
      else Error_missing_column (file_name f))"

text \<open>
  Uploads for the scenarios: a table with a title column and an energy column, five of
  them, and a table without the energy column.
\<close>

definition thermal_csv :: "string \<Rightarrow> string \<Rightarrow> real list \<Rightarrow> upload" where
  "thermal_csv fname title xs =
     \<lparr> file_name = fname,
       read_csv = Some [(''title'', map (\<lambda>x. Str title) xs),
                        (''r_psp_MMGBSA_dG_Bind'', map (\<lambda>x. Flt (Some x)) xs)] \<rparr>"


definition no_energy_csv :: upload where
  "no_energy_csv =
     \<lparr> file_name = ''other.csv'',
       read_csv = Some [(''title'', [Str ''X'', Str ''X'']), (''energy'', [Flt (Some 1), Flt (Some 2)])] \<rparr>"

section \<open>Series without missing values\<close>

lemma dropna_Num [simp]: "dropna (Num xs) = xs"
  by (induction xs) simp_all

lemma window_data_Num:
  "window_data (Num xs) w i = Num (drop (nat (max 0 (int i - int w + 1))) (take (i + 1) xs))"
  by (simp add: window_data_def drop_map take_map)

lemma length_window_data_min:
  "i < length dg \<Longrightarrow> 1 \<le> w \<Longrightarrow> length (window_data dg w i) = min w (i + 1)"
  by (auto simp add: window_data_def min_def max_def nat_diff_distrib)

lemma sum_list_drop_take:
  fixes xs :: "real list"
  assumes "b \<le> length xs"
  shows "sum_list (drop a (take b xs)) = (\<Sum>j = a..<b. xs ! j)"
proof -
  have "sum_list (drop a (take b xs)) = (\<Sum>k = 0..<b - a. drop a (take b xs) ! k)"
    using assms by (simp add: sum_list_sum_nth)
  also have "\<dots> = (\<Sum>k = 0..<b - a. xs ! (a + k))"
    using assms by (intro sum.cong) auto
  also have "\<dots> = (\<Sum>j = a..<b. xs ! j)"
  proof (cases "a \<le> b")
    case True
    then show ?thesis
      using sum.shift_bounds_nat_ivl[of "\<lambda>j. xs ! j" 0 a "b - a"] by (simp add: add.commute)
  next
    case False
    then show ?thesis by simp
  qed
  finally show ?thesis .
qed

section \<open>Running mean\<close>

lemma rolling_nth:
  "i < length dg \<Longrightarrow> rolling f dg w m ! i =
     (let vs = dropna (window_data dg w i) in if length vs < m then None else f vs)"
  by (simp add: rolling_def)

lemma length_rolling [simp]: "length (rolling f dg w m) = length dg"
  by (simp add: rolling_def)

lemma running_nth_Num:
  assumes "1 \<le> window_size st" "i < length xs"
  shows "running st (Num xs) ! i =
           Some (avg (drop (nat (max 0 (int i - int (window_size st) + 1))) (take (i + 1) xs)))"
proof -
  let ?v = "drop (nat (max 0 (int i - int (window_size st) + 1))) (take (i + 1) xs)"
  have "length ?v = min (window_size st) (i + 1)"
    using assms length_window_data_min[of i "Num xs" "window_size st"]
    by (simp add: window_data_Num)
  then have "?v \<noteq> []" "\<not> length ?v < 1" using assms by auto
  then show ?thesis
    using assms by (simp add: running_def rolling_mean_def rolling_nth window_data_Num Let_def)
qed

lemma running_window_one:
  assumes "window_size st = 1"
  shows "running st (Num xs) = Num xs"
proof (rule nth_equalityI)
  show "length (running st (Num xs)) = length (Num xs)"
    by (simp add: running_def rolling_mean_def)
next
  fix i assume "i < length (running st (Num xs))"
  then have i: "i < length xs" by (simp add: running_def rolling_mean_def)
  have "drop i (take (Suc i) xs) = [xs ! i]"
    using i by (simp add: take_Suc_conv_app_nth)
  then show "running st (Num xs) ! i = Num xs ! i"
    using i assms running_nth_Num[of st i xs] by (simp add: avg_def)
qed

text \<open>
  Claim C1. For a series of numbers and a window size \<open>w \<ge> 1\<close>, the running mean at
  row \<open>i\<close> is the arithmetic mean of the samples at the rows \<open>max(0, i-w+1), ..., i\<close>: a
  trailing window that is shorter near the start, with no later sample and no padding.
  At row 0 it is the sample at row 0; with \<open>w = 1\<close> the running mean is the series;
  with \<open>w = 10\<close> on \<open>[1, 2, 3]\<close> its value at row 2 is 2.
\<close>

theorem running_mean_trailing_window:
  fixes xs :: "real list"
  assumes "window_size st = w" and "1 \<le> w" and "i < length xs"
  shows "running st (Num xs) ! i =
           Some ((\<Sum>j = nat (max 0 (int i - int w + 1))..i. xs ! j)
                 / real (i + 1 - nat (max 0 (int i - int w + 1))))
         \<and> running st (Num xs) ! 0 = Some (xs ! 0)
         \<and> (w = 1 \<longrightarrow> running st (Num xs) = Num xs)
         \<and> (w = 10 \<longrightarrow> running st (Num [1, 2, 3]) ! 2 = Some 2)"
proof -
  have "{nat (max 0 (int i - int w + 1))..<i + 1} = {nat (max 0 (int i - int w + 1))..i}"
    by auto
  then have a: "running st (Num xs) ! i =
           Some ((\<Sum>j = nat (max 0 (int i - int w + 1))..i. xs ! j)
                 / real (i + 1 - nat (max 0 (int i - int w + 1))))"
    using assms running_nth_Num[of st i xs]
      sum_list_drop_take[of "i + 1" xs "nat (max 0 (int i - int w + 1))"]
    by (simp add: avg_def)
  obtain y ys where "xs = y # ys" using assms by (cases xs) auto
  then have b: "running st (Num xs) ! 0 = Some (xs ! 0)"
    using assms running_nth_Num[of st 0 xs] by (simp add: avg_def)
  have c: "w = 1 \<longrightarrow> running st (Num xs) = Num xs"
    using assms running_window_one by simp
  have d: "w = 10 \<longrightarrow> running st (Num [1, 2, 3]) ! 2 = Some 2"
    using assms running_nth_Num[of st 2 "[1, 2, 3]"] by (simp add: avg_def)
  from a b c d show ?thesis by blast
qed

theorem running_mean_trailing_window_witness:
  "window_size (DEFAULT_SETTINGS\<lparr> window_size := 2 \<rparr>) = 2 \<and> (1::nat) \<le> 2
   \<and> (2::nat) < length [1, 2, 4 :: real]
   \<and> running (DEFAULT_SETTINGS\<lparr> window_size := 2 \<rparr>) (Num [1, 2, 4]) ! 2 = Some 3
   \<and> running (DEFAULT_SETTINGS\<lparr> window_size := 2 \<rparr>) (Num [1, 2, 4]) ! 0 = Some 1"
  using running_mean_trailing_window[of "DEFAULT_SETTINGS\<lparr> window_size := 2 \<rparr>" 2 2 "[1, 2, 4]"]
  by (simp add: DEFAULT_SETTINGS_def numeral_3_eq_3 sum.atLeast_Suc_atMost)

section \<open>Time axis\<close>

lemma length_time_ns: "length (time_ns d dg) = length dg"
  by (simp add: time_ns_def)

text \<open>
  Claim C4. For a series of \<open>N\<close> samples and a total duration \<open>d\<close>, the time coordinate
  of sample \<open>i\<close> is \<open>i * (d / (N - 1))\<close> when \<open>N > 1\<close> and 0 when \<open>N = 1\<close>; the series
  \<open>[1, 2, 3]\<close> with \<open>d = 2\<close> has the time axis \<open>[0, 1, 2]\<close>.
\<close>

theorem time_axis_coordinates:
  assumes "i < length dg"
  shows "time_ns d dg ! i = (if length dg > 1 then real i * (d / real (length dg - 1)) else 0)
         \<and> length (time_ns d dg) = length dg
         \<and> time_ns 2 (Num [1, 2, 3]) = [0, 1, 2]"
proof -
  have a: "time_ns d dg ! i = (if length dg > 1 then real i * (d / real (length dg - 1)) else 0)"
  proof (cases "length dg > 1")
    case True
    then have "real_of_int (max (int (length dg) - 1) 1) = real (length dg - 1)"
      by (simp add: max_def of_nat_diff)
    with True assms show ?thesis by (simp add: time_ns_def time_step_def)
  next
    case False
    with assms have "length dg = 1" "i = 0" by auto
    then show ?thesis by (simp add: time_ns_def)
  qed
  have c: "time_ns 2 (Num [1, 2, 3]) = [0, 1, 2]"
    by (simp add: time_ns_def time_step_def upt_rec)
  from a c show ?thesis by (simp add: length_time_ns)
qed

theorem time_axis_coordinates_witness:
  "(1::nat) < length (Num [5, 7, 6]) \<and> time_ns 3 (Num [5, 7, 6]) ! 1 = 3 / 2"
  using time_axis_coordinates[of 1 "Num [5, 7, 6]" 3] by simp

section \<open>Summary statistics of a series\<close>








text \<open>
  With missing cells the frame count is the number of valid cells
  (\<^verbatim>\<open>series.count()\<close>), not the number of rows.
\<close>

lemma frames_counts_valid: "frames (compute_stats s) = int (length (dropna s))"
  by (simp add: compute_stats_def series_count_def)




section \<open>Error bands\<close>




section \<open>Confidence interval of the trailing window\<close>




















section \<open>Uploads and the processing loop\<close>









lemma process_entries_append:
  "process_entries ppf st md s (es @ es') =
     (case process_entries ppf st md s es of Inl x \<Rightarrow> Inl x
      | Inr s' \<Rightarrow> process_entries ppf st md s' es')"
  by (induction es arbitrary: s) (auto split: sum.splits)

lemma process_entry_missing_column:
  assumes "read_csv f = Some d" and "map_of d energy_column = None"
  shows "process_entry ppf st md s (read_entry idx f) = Inr (say (column_error f d) s)"
  using assms
  by (auto simp add: process_entry_def read_entry_def column_error_def split: option.splits)

text \<open>
  Claim C7. For an uploaded file whose table has no column
  \<^verbatim>\<open>r_psp_MMGBSA_dG_Bind\<close>, the loop reports one error that names the file, adds no
  plotted series and no statistics, raises nothing, and goes on with the files after
  it exactly as it would have without this one. Uploaded alone, the file gives its
  error, then "No valid data to plot", and the run stops without statistics.
\<close>

theorem missing_energy_column:
  assumes "read_csv f = Some d" and "map_of d energy_column = None"
  shows "process_entry ppf st md s (read_entry idx f) = Inr (say (column_error f d) s)
       \<and> plots (say (column_error f d) s) = plots s
       \<and> all_stats (say (column_error f d) s) = all_stats s
       \<and> messages (say (column_error f d) s) = messages s @ [column_error f d]
       \<and> process_entries ppf st md s (before @ read_entry idx f # rest) =
           (case process_entries ppf st md s before of
              Inl x \<Rightarrow> Inl x
            | Inr s' \<Rightarrow> process_entries ppf st md (say (column_error f d) s') rest)
       \<and> (0 < md \<longrightarrow> run_single ppf st md (Some f) = ([column_error f d, Error_no_valid_data], Halted))"
proof -
  have a: "\<And>s. process_entry ppf st md s (read_entry idx f) = Inr (say (column_error f d) s)"
    using assms by (rule process_entry_missing_column)
  have e: "process_entries ppf st md s (before @ read_entry idx f # rest) =
           (case process_entries ppf st md s before of
              Inl x \<Rightarrow> Inl x
            | Inr s' \<Rightarrow> process_entries ppf st md (say (column_error f d) s') rest)"
    by (simp add: process_entries_append a split: sum.splits)
  have "process_entry ppf st md \<lparr> messages = [], plots = [], all_stats = [] \<rparr> (read_entry 0 f)
          = Inr (say (column_error f d) \<lparr> messages = [], plots = [], all_stats = [] \<rparr>)"
    using assms by (rule process_entry_missing_column)
  then have g: "0 < md \<longrightarrow> run_single ppf st md (Some f) = ([column_error f d, Error_no_valid_data], Halted)"
    by (simp add: run_single_def upload_single_def process_files_def say_def)
  from a e g show ?thesis by (simp add: say_def)
qed

theorem missing_energy_column_witness:
  "read_csv no_energy_csv = Some [(''title'', [Str ''X'', Str ''X'']), (''energy'', [Flt (Some 1), Flt (Some 2)])]
   \<and> map_of [(''title'', [Str ''X'', Str ''X'']), (''energy'', [Flt (Some 1), Flt (Some 2)])] energy_column = None
   \<and> run_single t_table DEFAULT_SETTINGS 100 (Some no_energy_csv)
        = ([Error_missing_column ''other.csv'', Error_no_valid_data], Halted)
   \<and> process_entries t_table DEFAULT_SETTINGS 100 \<lparr> messages = [], plots = [], all_stats = [] \<rparr>
        (read_entries [thermal_csv ''a.csv'' ''A'' [1, 2]] @ read_entry 1 no_energy_csv
           # [read_entry 2 (thermal_csv ''c.csv'' ''C'' [4])])
      = process_entries t_table DEFAULT_SETTINGS 100
          (say (Error_missing_column ''other.csv'')
             \<lparr> messages = [],
               plots = [\<lparr> plot_ligand = Label (Str ''A''), plot_time_ns = [0, 100],
                          plot_dg = Num [1, 2], plot_running = [Some 1, Some (3 / 2)],
                          plot_bands = \<lparr> yerr = None, ci_lower = None, ci_upper = None \<rparr> \<rparr>],
               all_stats = [(Label (Str ''A''), compute_stats (Num [1, 2]))] \<rparr>)
          [read_entry 2 (thermal_csv ''c.csv'' ''C'' [4])]"
  using missing_energy_column[of no_energy_csv
      "[(''title'', [Str ''X'', Str ''X'']), (''energy'', [Flt (Some 1), Flt (Some 2)])]"
      t_table DEFAULT_SETTINGS 100 "\<lparr> messages = [], plots = [], all_stats = [] \<rparr>" 1
      "read_entries [thermal_csv ''a.csv'' ''A'' [1, 2]]"
      "[read_entry 2 (thermal_csv ''c.csv'' ''C'' [4])]"]
  by (simp add: no_energy_csv_def energy_column_def column_error_def first_title_def df_empty_def
      read_entries_def read_entry_def thermal_csv_def process_entry_def parse_ligand_id_def
      truthy_def time_ns_def time_step_def running_def rolling_mean_def rolling_def
      window_data_def avg_def error_bands_def DEFAULT_SETTINGS_def upt_rec)



end
